theory Spec2Isabelle
  imports Main
begin

section \<open>Laboratory result form fields\<close>

text \<open>
  A shallow embedding of \<^verbatim>\<open>lab-results-form-field.component.tsx\<close> (the component file of
  the orders app) and of the second copy of the component that the repository holds
  (\<^verbatim>\<open>src/unnamed/part_000\<close>). A rendered component is the list of input widgets it puts
  on the page; a callback is the list of calls it makes on its collaborators.
\<close>

subsection \<open>Data model\<close>

text \<open>
  \<^verbatim>\<open>LabOrderConcept\<close>, as far as the component reads it. A field that the code reads
  through \<^verbatim>\<open>?.\<close> or tests for \<^verbatim>\<open>null\<close> is an option. The bounds are JavaScript
  numbers; their type is the parameter \<open>'n\<close>, and the conversion that a template string
  applies to them is a parameter of the functions below.
\<close>

datatype concept_datatype =
  ConceptDatatype (dtDisplay: "string option") (hl7Abbreviation: "string option")

datatype answer = Answer (answerUuid: string) (answerDisplay: string)

datatype 'n concept =
  Concept
    (uuid: string)
    (display: "string option")
    (datatypeOf: "concept_datatype option")
    (hiAbsolute: "'n option")
    (lowAbsolute: "'n option")
    (units: "string option")
    (answers: "answer list option")
    (setMembers: "'n concept list option")

text \<open>
  \<^verbatim>\<open>Observation\<close>: the value is of any type; the component reads it whole or reads its
  \<^verbatim>\<open>uuid\<close> property, which only a coded value (a concept reference) has.
\<close>

datatype 'n obs_value =
    VString string
  | VNumber 'n
  | VCoded string string

record 'n group_member =
  memberConceptUuid :: string
  memberValue :: "'n obs_value option"

record 'n observation =
  obsConceptUuid :: "string option"
  obsValue :: "'n obs_value option"
  groupMembers :: "'n group_member list option"

text \<open>JavaScript truthiness of an optional string: absent and the empty string are falsy.\<close>

definition truthy :: "string option \<Rightarrow> bool" where
  "truthy s = (case s of None \<Rightarrow> False | Some v \<Rightarrow> v \<noteq> [])"

subsection \<open>The reference-range suffix\<close>

text \<open>\<^verbatim>\<open>formatLabRange\<close>; the two copies of the component have the same text for it.\<close>

definition formatLabRange :: "('n \<Rightarrow> string) \<Rightarrow> 'n concept \<Rightarrow> string" where
  "formatLabRange str concept =
     (if Option.bind (datatypeOf concept) hl7Abbreviation \<noteq> Some ''NM'' then ''''
      else
        let displayUnit = (case units concept of
                             None \<Rightarrow> ''''
                           | Some u \<Rightarrow> if u \<noteq> [] then '' '' @ u else '''')
        in case (lowAbsolute concept, hiAbsolute concept) of
             (Some lo, Some hi) \<Rightarrow>
               '' ('' @ str lo @ '' - '' @ str hi @ '' '' @ displayUnit @ '')''
           | (None, Some hi) \<Rightarrow> '' (<= '' @ str hi @ '' '' @ displayUnit @ '')''
           | (Some lo, None) \<Rightarrow> '' (>= '' @ str lo @ '' '' @ displayUnit @ '')''
           | (None, None) \<Rightarrow>
               (if truthy (units concept) then '' ('' @ displayUnit @ '')'' else ''''))"

text \<open>
  A finite decimal as JavaScript prints it (sign, integer digits, and the fractional
  digits after a point when there are any), to run the functions on concrete bounds.
\<close>

datatype decimal = Decimal (negative: bool) (intDigits: "nat list") (fracDigits: "nat list")

definition digitChar :: "nat \<Rightarrow> char" where
  "digitChar d = ''0123456789'' ! d"

definition decimalToString :: "decimal \<Rightarrow> string" where
  "decimalToString x =
     (if negative x then ''-'' else '''') @ map digitChar (intDigits x) @
     (if fracDigits x = [] then '''' else ''.'' @ map digitChar (fracDigits x))"

subsection \<open>Collaborators\<close>

text \<open>
  What the component imports and does not define: the classification predicates of
  \<^verbatim>\<open>lab-results.resource\<close>, the configuration that \<^verbatim>\<open>useConfig\<close> returns, the
  translation function \<^verbatim>\<open>t\<close> (key and default text to localized text) and the
  number-to-string conversion of the JavaScript runtime. The functions below take them
  as one parameter, so every theorem holds for any collaborators.
\<close>

record ('n, 'cfg) collaborators =
  isImage :: "'n concept \<Rightarrow> 'cfg \<Rightarrow> bool"
  isText :: "'n concept \<Rightarrow> bool"
  isNumeric :: "'n concept \<Rightarrow> bool"
  isPanel :: "'n concept \<Rightarrow> bool"
  isCoded :: "'n concept \<Rightarrow> bool"
  config :: 'cfg
  translate :: "string \<Rightarrow> string \<Rightarrow> string"
  numberToString :: "'n \<Rightarrow> string"

subsection \<open>Rendered widgets\<close>

text \<open>
  A child of a \<^verbatim>\<open>Select\<close> is a \<^verbatim>\<open>SelectItem\<close>, or the number 0 that
  \<^verbatim>\<open>answers.length && ...\<close> leaves behind when the answer list is empty.
\<close>

datatype select_child = SelectItem (itemText: string) (itemValue: string) | ZeroChild

text \<open>
  The four input widgets with the properties the component computes (\<open>labelText\<close> is the
  property \<^verbatim>\<open>label\<close> of a \<^verbatim>\<open>NumberInput\<close>). The properties that come from the form-control
  handle (the current value, the change handler) are not represented.
\<close>

datatype 'n widget =
    ImageHandlerInput (name: string) (labelText: string)
  | TextInput (widgetId: string) (name: string) (labelText: string)
      (invalidText: "string option") (invalid: bool)
  | NumberInput (widgetId: string) (name: string) (labelText: string)
      (invalidText: "string option") (invalid: bool)
  | Select (widgetId: string) (name: string) (selectDefaultValue: "'n obs_value option")
      (labelText: string) (invalidText: "string option") (invalid: bool)
      (children: "select_child list")

datatype error = TypeError

text \<open>
  The error map has one entry per invalid field, with an optional message:
  \<^verbatim>\<open>errors[uuid]?.message\<close> and \<^verbatim>\<open>!!errors[uuid]\<close>.
\<close>

type_synonym field_errors = "string \<rightharpoonup> string option"

definition errorMessage :: "field_errors \<Rightarrow> string \<Rightarrow> string option" where
  "errorMessage errors key = (case errors key of None \<Rightarrow> None | Some e \<Rightarrow> e)"

definition hasError :: "field_errors \<Rightarrow> string \<Rightarrow> bool" where
  "hasError errors key = (errors key \<noteq> None)"

text \<open>
  The label template, the same text at every use:
  \<^verbatim>\<open>`${concept?.display ? concept.display + ' ' : ''}${formatLabRange(concept)}`\<close>.
\<close>

definition fieldLabel :: "('n \<Rightarrow> string) \<Rightarrow> 'n concept \<Rightarrow> string" where
  "fieldLabel str concept =
     (case display concept of
        None \<Rightarrow> ''''
      | Some d \<Rightarrow> if d \<noteq> [] then d @ '' '' else '''') @ formatLabRange str concept"

text \<open>\<^verbatim>\<open>concept?.display || ''\<close>, the label of an image field.\<close>

definition imageLabel :: "'n concept \<Rightarrow> string" where
  "imageLabel concept = (case display concept of None \<Rightarrow> '''' | Some d \<Rightarrow> d)"

text \<open>The children of a \<^verbatim>\<open>Select\<close> under the guard \<^verbatim>\<open>answers?.length && answers?.map(...)\<close>.\<close>

definition answerItem :: "answer \<Rightarrow> select_child" where
  "answerItem a = SelectItem (answerDisplay a) (answerUuid a)"

definition selectChildren :: "('n, 'cfg) collaborators \<Rightarrow> 'n concept \<Rightarrow> select_child list" where
  "selectChildren env concept =
     SelectItem (translate env ''chooseAnOption'' ''Choose an option'') '''' #
     (case answers concept of
        None \<Rightarrow> []
      | Some as \<Rightarrow> if length as = 0 then [ZeroChild] else map answerItem as)"

subsection \<open>The component file: \<^verbatim>\<open>ConceptField\<close> and \<^verbatim>\<open>ResultFormField\<close>\<close>

text \<open>\<^verbatim>\<open>value?.uuid\<close>: only a coded value has the property.\<close>

definition valueUuid :: "'n obs_value \<Rightarrow> 'n obs_value option" where
  "valueUuid v = (case v of VCoded u d \<Rightarrow> Some (VString u) | _ \<Rightarrow> None)"

text \<open>\<^verbatim>\<open>defaultValue?.groupMembers?.find((member) => member.concept.uuid === conceptUuid)\<close>\<close>

definition findGroupMember :: "'n observation option \<Rightarrow> string \<Rightarrow> 'n group_member option" where
  "findGroupMember defaultValue conceptUuid =
     Option.bind (Option.bind defaultValue groupMembers)
       (List.find (\<lambda>member. memberConceptUuid member = conceptUuid))"

definition getSavedMemberValue ::
  "'n observation option \<Rightarrow> string \<Rightarrow> string option \<Rightarrow> 'n obs_value option" where
  "getSavedMemberValue defaultValue conceptUuid dataType =
     (if Some conceptUuid = Option.bind defaultValue obsConceptUuid
      then Option.bind defaultValue obsValue
      else if dataType = Some ''Coded''
      then Option.bind (Option.bind (findGroupMember defaultValue conceptUuid) memberValue) valueUuid
      else Option.bind (findGroupMember defaultValue conceptUuid) memberValue)"


text \<open>
  \<^verbatim>\<open>ConceptField\<close>: a chain of early returns, each of one element; the function ends
  without a return (nothing is rendered) when no test holds. The result is the list of
  the widgets rendered. \<^verbatim>\<open>concept.datatype.display\<close> is read without \<^verbatim>\<open>?.\<close> and throws
  when the concept has no datatype.
\<close>

definition ConceptField ::
  "('n, 'cfg) collaborators \<Rightarrow> field_errors \<Rightarrow> 'n observation option \<Rightarrow> 'n concept
   \<Rightarrow> error + 'n widget list" where
  "ConceptField env errors defaultValue concept =
     (if isImage env concept (config env) then
        Inr [ImageHandlerInput (uuid concept) (imageLabel concept)]
      else if isText env concept then
        Inr [TextInput (uuid concept) (uuid concept)
               (fieldLabel (numberToString env) concept)
               (errorMessage errors (uuid concept)) (hasError errors (uuid concept))]
      else if isNumeric env concept then
        Inr [NumberInput (uuid concept) (uuid concept)
               (fieldLabel (numberToString env) concept)
               (errorMessage errors (uuid concept)) (hasError errors (uuid concept))]
      else if isCoded env concept then
        (case datatypeOf concept of
           None \<Rightarrow> Inl TypeError
         | Some dt \<Rightarrow>
             Inr [Select (''select-'' @ uuid concept) (uuid concept)
                    (getSavedMemberValue defaultValue (uuid concept) (dtDisplay dt))
                    (fieldLabel (numberToString env) concept)
                    (errorMessage errors (uuid concept)) (hasError errors (uuid concept))
                    (selectChildren env concept)])
      else Inr [])"

text \<open>
  \<^verbatim>\<open>setMembers.map(...)\<close> rendered: the members' widgets one member after the other; an
  error in one member is an error of the whole.
\<close>

fun renderEach :: "('a \<Rightarrow> error + 'w list) \<Rightarrow> 'a list \<Rightarrow> error + 'w list" where
  "renderEach f [] = Inr []"
| "renderEach f (x # xs) =
     (case f x of
        Inl e \<Rightarrow> Inl e
      | Inr ws \<Rightarrow>
          (case renderEach f xs of
             Inl e \<Rightarrow> Inl e
           | Inr rest \<Rightarrow> Inr (ws @ rest)))"

text \<open>
  \<^verbatim>\<open>isPanel(concept) && concept.setMembers.map(...)\<close>: \<^verbatim>\<open>setMembers.map\<close> throws when
  the list is absent.
\<close>

definition renderMembers ::
  "('n, 'cfg) collaborators \<Rightarrow> ('n concept \<Rightarrow> error + 'n widget list) \<Rightarrow> 'n concept
   \<Rightarrow> error + 'n widget list" where
  "renderMembers env f concept =
     (if isPanel env concept then
        (case setMembers concept of
           None \<Rightarrow> Inl TypeError
         | Some members \<Rightarrow> renderEach f members)
      else Inr [])"

text \<open>
  \<^verbatim>\<open>ResultFormField\<close>: the concept's own \<^verbatim>\<open>ConceptField\<close>, then one \<^verbatim>\<open>ConceptField\<close> per
  member when \<^verbatim>\<open>isPanel\<close> holds.
\<close>

definition ResultFormField ::
  "('n, 'cfg) collaborators \<Rightarrow> field_errors \<Rightarrow> 'n observation option \<Rightarrow> 'n concept
   \<Rightarrow> error + 'n widget list" where
  "ResultFormField env errors defaultValue concept =
     (case ConceptField env errors defaultValue concept of
        Inl e \<Rightarrow> Inl e
      | Inr own \<Rightarrow>
          (case renderMembers env (ConceptField env errors defaultValue) concept of
             Inl e \<Rightarrow> Inl e
           | Inr ws \<Rightarrow> Inr (own @ ws)))"

subsection \<open>The second copy: \<^verbatim>\<open>ResultFormField\<close> of \<^verbatim>\<open>src/unnamed/part_000\<close>\<close>

text \<open>
  This copy has no \<^verbatim>\<open>ConceptField\<close>: it renders every widget whose test holds, in the
  order text, numeric, coded, image, for the concept and then for each member, with the
  member's widgets written out a second time.
\<close>

definition getSavedMemberValue_part000 ::
  "'n observation option \<Rightarrow> string \<Rightarrow> string option \<Rightarrow> 'n obs_value option" where
  "getSavedMemberValue_part000 defaultValue conceptUuid dataType =
     (if dataType = Some ''Coded''
      then Option.bind (Option.bind (findGroupMember defaultValue conceptUuid) memberValue) valueUuid
      else Option.bind (findGroupMember defaultValue conceptUuid) memberValue)"

text \<open>The concept's own widgets; the coded one pre-fills \<^verbatim>\<open>defaultValue?.value?.uuid\<close>.\<close>

definition ownFields_part000 ::
  "('n, 'cfg) collaborators \<Rightarrow> field_errors \<Rightarrow> 'n observation option \<Rightarrow> 'n concept
   \<Rightarrow> 'n widget list" where
  "ownFields_part000 env errors defaultValue concept =
     (if isText env concept then
        [TextInput (uuid concept) (uuid concept)
           (fieldLabel (numberToString env) concept)
           (errorMessage errors (uuid concept)) (hasError errors (uuid concept))]
      else []) @
     (if isNumeric env concept then
        [NumberInput (uuid concept) (uuid concept)
           (fieldLabel (numberToString env) concept)
           (errorMessage errors (uuid concept)) (hasError errors (uuid concept))]
      else []) @
     (if isCoded env concept then
        [Select (''select-'' @ uuid concept) (uuid concept)
           (Option.bind (Option.bind defaultValue obsValue) valueUuid)
           (fieldLabel (numberToString env) concept)
           (errorMessage errors (uuid concept)) (hasError errors (uuid concept))
           (selectChildren env concept)]
      else []) @
     (if isImage env concept (config env) then
        [ImageHandlerInput (uuid concept) (imageLabel concept)]
      else [])"

text \<open>
  A member's widgets. The identifiers carry a prefix, the answers are mapped without the
  length guard, and \<^verbatim>\<open>member.datatype.display\<close> throws when the member has no datatype.
\<close>

definition memberFields_part000 ::
  "('n, 'cfg) collaborators \<Rightarrow> field_errors \<Rightarrow> 'n observation option \<Rightarrow> 'n concept
   \<Rightarrow> error + 'n widget list" where
  "memberFields_part000 env errors defaultValue member =
     (case (if isCoded env member then
              (case datatypeOf member of
                 None \<Rightarrow> Inl TypeError
               | Some dt \<Rightarrow>
                   Inr [Select (''select-'' @ uuid member) (uuid member)
                          (getSavedMemberValue_part000 defaultValue (uuid member) (dtDisplay dt))
                          (fieldLabel (numberToString env) member)
                          (errorMessage errors (uuid member)) (hasError errors (uuid member))
                          (SelectItem (translate env ''chooseAnOption'' ''Choose an option'') '''' #
                           (case answers member of
                              None \<Rightarrow> []
                            | Some as \<Rightarrow> map answerItem as))])
            else Inr []) of
        Inl e \<Rightarrow> Inl e
      | Inr coded \<Rightarrow>
          Inr ((if isText env member then
                  [TextInput (''text-'' @ uuid member) (uuid member)
                     (fieldLabel (numberToString env) member)
                     (errorMessage errors (uuid member)) (hasError errors (uuid member))]
                else []) @
               (if isNumeric env member then
                  [NumberInput (''number-'' @ uuid member) (uuid member)
                     (fieldLabel (numberToString env) member)
                     (errorMessage errors (uuid member)) (hasError errors (uuid member))]
                else []) @
               coded @
               (if isImage env member (config env) then
                  [ImageHandlerInput (uuid member) (imageLabel member)]
                else [])))"

definition ResultFormField_part000 ::
  "('n, 'cfg) collaborators \<Rightarrow> field_errors \<Rightarrow> 'n observation option \<Rightarrow> 'n concept
   \<Rightarrow> error + 'n widget list" where
  "ResultFormField_part000 env errors defaultValue concept =
     (case renderMembers env (memberFields_part000 env errors defaultValue) concept of
        Inl e \<Rightarrow> Inl e
      | Inr ws \<Rightarrow> Inr (ownFields_part000 env errors defaultValue concept @ ws))"

subsection \<open>The image capture adapter: \<^verbatim>\<open>ImageHandlerInput\<close>\<close>

text \<open>The two copies of the component have the same text for the adapter.\<close>

record uploaded_file =
  base64Content :: string
  fileName :: string
  fileDescription :: "string option"

text \<open>
  What \<^verbatim>\<open>useAllowedFileExtensions()\<close> returned: nothing (\<^verbatim>\<open>undefined\<close> or \<^verbatim>\<open>null\<close>), a
  value that is not an array, or an array of extensions.
\<close>

datatype allowed_file_extensions = Absent | NotAnArray | Extensions "string list"

record modal_props =
  allowedExtensions :: "string list"
  collectDescription :: bool
  multipleFiles :: bool

record snackbar =
  title :: string
  kind :: string
  isLowContrast :: bool

text \<open>
  The calls a callback of the adapter makes: on the setter it was given, on
  \<^verbatim>\<open>showModal\<close>, on the close handle that \<^verbatim>\<open>showModal\<close> returned, on \<^verbatim>\<open>showSnackbar\<close>.
\<close>

datatype effect =
    SetValue "uploaded_file option"
  | ShowModal string modal_props
  | Close
  | ShowSnackbar snackbar

text \<open>
  \<^verbatim>\<open>/pdf/i.test(ext)\<close>: the letters p, d, f in a row at some position, each in either
  case.
\<close>

fun pdfAtStart :: "string \<Rightarrow> bool" where
  "pdfAtStart (a # b # c # rest) =
     ((a = CHR ''p'' \<or> a = CHR ''P'') \<and> (b = CHR ''d'' \<or> b = CHR ''D'') \<and>
      (c = CHR ''f'' \<or> c = CHR ''F''))"
| "pdfAtStart _ = False"

fun testPdf :: "string \<Rightarrow> bool" where
  "testPdf [] = False"
| "testPdf (x # xs) = (pdfAtStart (x # xs) \<or> testPdf xs)"

definition showImageCaptureModal :: "allowed_file_extensions \<Rightarrow> effect list" where
  "showImageCaptureModal allowedFileExtensions =
     [ShowModal ''capture-photo-modal''
        \<lparr>allowedExtensions =
           (case allowedFileExtensions of
              Extensions exts \<Rightarrow> filter (\<lambda>ext. \<not> testPdf ext) exts
            | _ \<Rightarrow> []),
         collectDescription = True,
         multipleFiles = True\<rparr>]"

text \<open>The two callbacks handed to the modal.\<close>

definition saveFile :: "uploaded_file option \<Rightarrow> effect list" where
  "saveFile file = (case file of None \<Rightarrow> [] | Some f \<Rightarrow> [SetValue (Some f)]) @ [Close]"

definition closeModal :: "effect list" where
  "closeModal = [Close]"

definition handleRemoveImage :: "('n, 'cfg) collaborators \<Rightarrow> effect list" where
  "handleRemoveImage env =
     [SetValue None,
      ShowSnackbar \<lparr>title = translate env ''imageRemoved'' ''Image removed'',
                    kind = ''success'', isLowContrast = True\<rparr>]"

text \<open>
  Modelled from the spec: the form-state engine, the modal service and the notification
  service are collaborators outside this component (the form library and the application
  framework), not among the sources. The form value map is seeded once at mount and written
  through the bound setter, which for the adapter is \<^verbatim>\<open>(v) => setValue(field.name, v)\<close>;
  the modal service opens a workflow and returns a close handle; the notification
  service displays a toast. The state the calls act on is the form's value of the field,
  the value the field had at mount, the open modal, and the notifications shown so far.
\<close>

record image_field =
  fieldValue :: "uploaded_file option"
  mountValue :: "uploaded_file option"
  openModal :: "(string \<times> modal_props) option"
  snackbars :: "snackbar list"

fun perform :: "effect \<Rightarrow> image_field \<Rightarrow> image_field" where
  "perform (SetValue v) s = s\<lparr>fieldValue := v\<rparr>"
| "perform (ShowModal modalName props) s = s\<lparr>openModal := Some (modalName, props)\<rparr>"
| "perform Close s = s\<lparr>openModal := None\<rparr>"
| "perform (ShowSnackbar n) s = s\<lparr>snackbars := snackbars s @ [n]\<rparr>"

definition run :: "effect list \<Rightarrow> image_field \<Rightarrow> image_field" where
  "run effects s = fold perform effects s"

text \<open>
  Modelled from the spec: \<^verbatim>\<open>field.value\<close>, which the \<^verbatim>\<open>Controller\<close> of the form library
  (not among the sources) hands to the adapter as its \<^verbatim>\<open>value\<close>. It is the form's value of
  the field; when that is undefined the \<^verbatim>\<open>Controller\<close> falls back to the value the field had
  at mount, so a setter call with \<^verbatim>\<open>undefined\<close> empties what the adapter sees only for a
  field that was empty at mount.
\<close>

definition adapterValue :: "image_field \<Rightarrow> uploaded_file option" where
  "adapterValue s = (case fieldValue s of None \<Rightarrow> mountValue s | Some f \<Rightarrow> Some f)"

text \<open>The thumbnail grid: \<^verbatim>\<open>value && <img src=... alt=... />\<close> with its remove button.\<close>

definition thumbnails :: "image_field \<Rightarrow> (string \<times> string) list" where
  "thumbnails s =
     (case adapterValue s of
        None \<Rightarrow> []
      | Some f \<Rightarrow> [(base64Content f,
                     case fileDescription f of None \<Rightarrow> fileName f | Some d \<Rightarrow> d)])"

subsection \<open>Collaborators for concrete runs\<close>

text \<open>
  Modelled from the spec: \<^verbatim>\<open>lab-results.resource\<close>, which defines \<^verbatim>\<open>isImage\<close>,
  \<^verbatim>\<open>isText\<close>, \<^verbatim>\<open>isNumeric\<close>, \<^verbatim>\<open>isPanel\<close> and \<^verbatim>\<open>isCoded\<close>, is not among the sources.
  The concept descriptor carries a data-type classification and, when it is a panel, child
  concepts; the configuration designates the image-capturing concepts. Here the
  configuration is the list of their identifiers, the classification is the display name
  of the datatype (\<^verbatim>\<open>getSavedMemberValue\<close> tests it against \<^verbatim>\<open>'Coded'\<close>), a panel is a
  concept with members, and a text is localized to its default.
\<close>

definition sampleCollaborators :: "string list \<Rightarrow> (decimal, string list) collaborators" where
  "sampleCollaborators imageConcepts =
     \<lparr>isImage = (\<lambda>c cfg. uuid c \<in> set cfg),
      isText = (\<lambda>c. Option.bind (datatypeOf c) dtDisplay = Some ''Text''),
      isNumeric = (\<lambda>c. Option.bind (datatypeOf c) dtDisplay = Some ''Numeric''),
      isPanel = (\<lambda>c. case setMembers c of None \<Rightarrow> False | Some ms \<Rightarrow> ms \<noteq> []),
      isCoded = (\<lambda>c. Option.bind (datatypeOf c) dtDisplay = Some ''Coded''),
      config = imageConcepts,
      translate = (\<lambda>key defaultText. defaultText),
      numberToString = decimalToString\<rparr>"

subsection \<open>Notions used to state the properties\<close>

text \<open>The kind of a rendered widget, and what it shows apart from its identifier.\<close>

datatype widget_kind = ImageKind | TextKind | NumericKind | CodedKind

fun kindOf :: "'n widget \<Rightarrow> widget_kind" where
  "kindOf (ImageHandlerInput n l) = ImageKind"
| "kindOf (TextInput i n l t v) = TextKind"
| "kindOf (NumberInput i n l t v) = NumericKind"
| "kindOf (Select i n d l t v ch) = CodedKind"




fun defaultOf :: "'n widget \<Rightarrow> 'n obs_value option" where
  "defaultOf (Select i n d l t v ch) = d"
| "defaultOf w = None"


text \<open>
  The value recorded for a concept among the group members of an observation: that of the
  first child with the concept's identifier, as its identifier when the data type is
  named Coded (unset when the value has none) and as it is otherwise; unset when there
  is no list of group members or no such child.
\<close>

definition groupMemberValue ::
  "'n observation \<Rightarrow> string \<Rightarrow> string option \<Rightarrow> 'n obs_value option" where
  "groupMemberValue obs conceptUuid dataType =
     (case groupMembers obs of
        None \<Rightarrow> None
      | Some gs \<Rightarrow>
          (case List.find (\<lambda>g. memberConceptUuid g = conceptUuid) gs of
             None \<Rightarrow> None
           | Some g \<Rightarrow>
               if dataType = Some ''Coded''
               then (case memberValue g of Some (VCoded i d) \<Rightarrow> Some (VString i) | _ \<Rightarrow> None)
               else memberValue g))"


text \<open>
  The priority chain of \<^verbatim>\<open>ConceptField\<close> as a classification: image, then text, then
  numeric, then coded, the first that holds; none of them gives nothing.
\<close>

definition priorityChain :: "('n, 'cfg) collaborators \<Rightarrow> 'n concept \<Rightarrow> widget_kind list" where
  "priorityChain env c =
     (if isImage env c (config env) then [ImageKind]
      else if isText env c then [TextKind]
      else if isNumeric env c then [NumericKind]
      else if isCoded env c then [CodedKind]
      else [])"

definition membersOf :: "'n concept \<Rightarrow> 'n concept list" where
  "membersOf c = (case setMembers c of None \<Rightarrow> [] | Some ms \<Rightarrow> ms)"

text \<open>The concepts a form field is rendered for: the concept, and its members when it is a panel.\<close>

definition renderedConcepts :: "('n, 'cfg) collaborators \<Rightarrow> 'n concept \<Rightarrow> 'n concept list" where
  "renderedConcepts env c = c # (if isPanel env c then membersOf c else [])"


text \<open>
  The calls a callback makes on the setter, with their arguments in order, and the
  notifications it shows.
\<close>

fun setterCalls :: "effect list \<Rightarrow> uploaded_file option list" where
  "setterCalls [] = []"
| "setterCalls (SetValue v # es) = v # setterCalls es"
| "setterCalls (e # es) = setterCalls es"

fun notifications :: "effect list \<Rightarrow> snackbar list" where
  "notifications [] = []"
| "notifications (ShowSnackbar n # es) = n # notifications es"
| "notifications (e # es) = notifications es"

text \<open>
  An extension contains the substring "pdf", matched case-insensitively: the three letters
  in a row, each in either case.
\<close>

definition containsPdfIgnoringCase :: "string \<Rightarrow> bool" where
  "containsPdfIgnoringCase s =
     (\<exists>pre a b c post. s = pre @ a # b # c # post \<and> a \<in> {CHR ''p'', CHR ''P''} \<and>
        b \<in> {CHR ''d'', CHR ''D''} \<and> c \<in> {CHR ''f'', CHR ''F''})"

subsection \<open>Concrete inputs\<close>

text \<open>A numeric concept with both bounds and a unit: low 3.5, high 10, mg/dL.\<close>

definition glucose :: "decimal concept" where
  "glucose =
     Concept ''c-glucose'' (Some ''Glucose'')
       (Some (ConceptDatatype (Some ''Numeric'') (Some ''NM'')))
       (Some (Decimal False [1, 0] [])) (Some (Decimal False [3] [5])) (Some ''mg/dL'')
       None None"

text \<open>A numeric concept with an upper bound of 200 only, and no unit.\<close>

definition cholesterol :: "decimal concept" where
  "cholesterol =
     Concept ''c-chol'' (Some ''Cholesterol'')
       (Some (ConceptDatatype (Some ''Numeric'') (Some ''NM'')))
       (Some (Decimal False [2, 0, 0] [])) None None None None"

text \<open>A numeric concept with the given lower bound, upper bound and unit.\<close>

definition numericConcept ::
  "decimal option \<Rightarrow> decimal option \<Rightarrow> string option \<Rightarrow> decimal concept" where
  "numericConcept lo hi u =
     Concept ''c-numeric'' (Some ''Result'')
       (Some (ConceptDatatype (Some ''Numeric'') (Some ''NM''))) hi lo u None None"

text \<open>A free-text concept, a date concept (no widget test holds for it), a coded concept.\<close>

definition comment :: "decimal concept" where
  "comment =
     Concept ''c-comment'' (Some ''Comment'')
       (Some (ConceptDatatype (Some ''Text'') (Some ''ST''))) None None None None None"

definition collectionDate :: "decimal concept" where
  "collectionDate =
     Concept ''c-date'' (Some ''Collection date'')
       (Some (ConceptDatatype (Some ''Date'') (Some ''DT''))) None None None None None"

definition malaria :: "decimal concept" where
  "malaria =
     Concept ''c-malaria'' (Some ''Malaria smear'')
       (Some (ConceptDatatype (Some ''Coded'') (Some ''CWE''))) None None None
       (Some [Answer ''a-pos'' ''Positive'', Answer ''a-neg'' ''Negative'']) None"

text \<open>A panel of three members; a coded concept that has members as well.\<close>

definition bloodPanel :: "decimal concept" where
  "bloodPanel =
     Concept ''c-panel'' (Some ''Blood panel'')
       (Some (ConceptDatatype (Some ''N/A'') (Some ''ZZ''))) None None None None
       (Some [glucose, collectionDate, malaria])"

definition codedPanel :: "decimal concept" where
  "codedPanel =
     Concept ''c-coded-panel'' (Some ''Smear with comment'')
       (Some (ConceptDatatype (Some ''Coded'') (Some ''CWE''))) None None None
       (Some [Answer ''a-pos'' ''Positive'', Answer ''a-neg'' ''Negative''])
       (Some [comment])"

text \<open>
  Recorded observations: of the malaria smear on its own (a coded value), and of the
  blood panel with two group members.
\<close>

definition malariaObs :: "decimal observation" where
  "malariaObs =
     \<lparr>obsConceptUuid = Some ''c-malaria'', obsValue = Some (VCoded ''a-pos'' ''Positive''),
      groupMembers = None\<rparr>"

definition bloodPanelObs :: "decimal observation" where
  "bloodPanelObs =
     \<lparr>obsConceptUuid = Some ''c-panel'', obsValue = None,
      groupMembers = Some
        [\<lparr>memberConceptUuid = ''c-glucose'', memberValue = Some (VNumber (Decimal False [5] [1]))\<rparr>,
         \<lparr>memberConceptUuid = ''c-malaria'', memberValue = Some (VCoded ''a-neg'' ''Negative'')\<rparr>]\<rparr>"

definition photo :: uploaded_file where
  "photo = \<lparr>base64Content = ''data:image/png;base64,AAAA'', fileName = ''smear.png'',
            fileDescription = None\<rparr>"

text \<open>An image field that was empty at mount, with nothing open and nothing notified.\<close>

definition emptyField :: image_field where
  "emptyField = \<lparr>fieldValue = None, mountValue = None, openModal = None, snackbars = []\<rparr>"

section \<open>Properties\<close>

subsection \<open>Auxiliary facts\<close>

lemma error_TypeError: "(e::error) = TypeError"
  by (cases e) simp

lemma renderEach_eq:
  "renderEach f xs =
     (if \<forall>x \<in> set xs. \<not> isl (f x) then Inr (concat (map (\<lambda>x. projr (f x)) xs))
      else Inl TypeError)"
proof (induction xs)
  case Nil
  show ?case by simp
next
  case (Cons x xs)
  show ?case
  proof (cases "f x")
    case (Inl e)
    then show ?thesis by (simp add: error_TypeError)
  next
    case (Inr v)
    then show ?thesis using Cons.IH by simp
  qed
qed

lemma renderMembers_eq:
  "renderMembers env f c =
     (if isPanel env c then
        (if setMembers c \<noteq> None \<and> (\<forall>m \<in> set (membersOf c). \<not> isl (f m))
         then Inr (concat (map (\<lambda>m. projr (f m)) (membersOf c)))
         else Inl TypeError)
      else Inr [])"
  by (auto simp: renderMembers_def renderEach_eq membersOf_def split: option.splits)

lemma ResultFormField_Inr:
  "ResultFormField env errors dv c = Inr ws \<longleftrightarrow>
     (\<exists>own rest. ConceptField env errors dv c = Inr own \<and>
        renderMembers env (ConceptField env errors dv) c = Inr rest \<and> ws = own @ rest)"
  by (auto simp: ResultFormField_def split: sum.splits)

lemma ConceptField_kinds:
  "ConceptField env errors dv c = Inr ws \<Longrightarrow> map kindOf ws = priorityChain env c"
  by (auto simp: ConceptField_def priorityChain_def split: if_splits option.splits)

lemma concat_map_kinds:
  "\<forall>m \<in> set ms. \<not> isl (ConceptField env errors dv m) \<Longrightarrow>
   map kindOf (concat (map (\<lambda>m. projr (ConceptField env errors dv m)) ms)) =
     concat (map (priorityChain env) ms)"
proof (induction ms)
  case Nil
  show ?case by simp
next
  case (Cons m ms)
  from Cons.prems obtain v where v: "ConceptField env errors dv m = Inr v"
    by (cases "ConceptField env errors dv m") auto
  from Cons show ?case by (simp add: v ConceptField_kinds [OF v])
qed

lemma pdfAtStart_iff:
  "pdfAtStart s \<longleftrightarrow>
     (\<exists>a b c post. s = a # b # c # post \<and> a \<in> {CHR ''p'', CHR ''P''} \<and>
        b \<in> {CHR ''d'', CHR ''D''} \<and> c \<in> {CHR ''f'', CHR ''F''})"
  by (cases s rule: pdfAtStart.cases) auto

lemma testPdf_iff: "testPdf s \<longleftrightarrow> containsPdfIgnoringCase s"
  unfolding containsPdfIgnoringCase_def
proof (induction s)
  case Nil
  then show ?case by simp
next
  case (Cons x xs)
  show ?case
  proof
    assume "testPdf (x # xs)"
    then consider "pdfAtStart (x # xs)" | "testPdf xs" by auto
    then show "\<exists>pre a b c post. x # xs = pre @ a # b # c # post \<and> a \<in> {CHR ''p'', CHR ''P''} \<and>
        b \<in> {CHR ''d'', CHR ''D''} \<and> c \<in> {CHR ''f'', CHR ''F''}"
    proof cases
      case 1
      then obtain a b c post where "x # xs = [] @ a # b # c # post" "a \<in> {CHR ''p'', CHR ''P''}"
        "b \<in> {CHR ''d'', CHR ''D''}" "c \<in> {CHR ''f'', CHR ''F''}"
        unfolding pdfAtStart_iff by auto
      then show ?thesis by blast
    next
      case 2
      then obtain pre a b c post where "xs = pre @ a # b # c # post" "a \<in> {CHR ''p'', CHR ''P''}"
        "b \<in> {CHR ''d'', CHR ''D''}" "c \<in> {CHR ''f'', CHR ''F''}"
        using Cons.IH by auto
      then have "x # xs = (x # pre) @ a # b # c # post" by simp
      then show ?thesis using \<open>a \<in> _\<close> \<open>b \<in> _\<close> \<open>c \<in> _\<close> by blast
    qed
  next
    assume "\<exists>pre a b c post. x # xs = pre @ a # b # c # post \<and> a \<in> {CHR ''p'', CHR ''P''} \<and>
        b \<in> {CHR ''d'', CHR ''D''} \<and> c \<in> {CHR ''f'', CHR ''F''}"
    then obtain pre a b c post where eq: "x # xs = pre @ a # b # c # post"
      and m: "a \<in> {CHR ''p'', CHR ''P''}" "b \<in> {CHR ''d'', CHR ''D''}" "c \<in> {CHR ''f'', CHR ''F''}"
      by blast
    show "testPdf (x # xs)"
    proof (cases pre)
      case Nil
      with eq m have "pdfAtStart (x # xs)" unfolding pdfAtStart_iff by auto
      then show ?thesis by simp
    next
      case (Cons p ps)
      with eq have "xs = ps @ a # b # c # post" by simp
      with m have "testPdf xs" using Cons.IH by blast
      then show ?thesis by simp
    qed
  qed
qed

lemmas example_defs =
  sampleCollaborators_def glucose_def cholesterol_def numericConcept_def comment_def
  collectionDate_def
  malaria_def bloodPanel_def codedPanel_def malariaObs_def bloodPanelObs_def photo_def
  emptyField_def
  decimalToString_def digitChar_def

lemmas render_defs =
  ResultFormField_def ResultFormField_part000_def ConceptField_def renderMembers_def
  ownFields_part000_def memberFields_part000_def getSavedMemberValue_def
  getSavedMemberValue_part000_def findGroupMember_def valueUuid_def selectChildren_def
  answerItem_def fieldLabel_def imageLabel_def formatLabRange_def truthy_def
  errorMessage_def hasError_def

subsection \<open>The priority chain\<close>

text \<open>
  Claim C1, as the code has it. The concept's own widget is chosen by the chain image,
  text, numeric, coded, the first test that holds, and a concept for which none holds
  renders nothing of its own. Being a panel is no step of that chain: when the concept is
  a panel the widgets of its members, each chosen by the same chain, follow the concept's
  own widget, whatever that was.
\<close>

theorem ResultFormField_priority_chain:
  assumes "ResultFormField env errors dv c = Inr ws"
  shows "map kindOf ws =
           priorityChain env c @
           (if isPanel env c then concat (map (priorityChain env) (membersOf c)) else [])"
proof -
  from assms obtain own rest where own: "ConceptField env errors dv c = Inr own"
    and rest: "renderMembers env (ConceptField env errors dv) c = Inr rest"
    and ws: "ws = own @ rest"
    unfolding ResultFormField_Inr by blast
  have "map kindOf rest =
          (if isPanel env c then concat (map (priorityChain env) (membersOf c)) else [])"
    using rest by (auto simp: renderMembers_eq concat_map_kinds split: if_splits)
  with ws ConceptField_kinds [OF own] show ?thesis by simp
qed

theorem ResultFormField_priority_chain_witness:
  "ResultFormField (sampleCollaborators []) Map.empty (Some bloodPanelObs) bloodPanel =
     Inr [NumberInput ''c-glucose'' ''c-glucose'' ''Glucose  (3.5 - 10  mg/dL)'' None False,
          Select ''select-c-malaria'' ''c-malaria'' (Some (VString ''a-neg''))
            ''Malaria smear '' None False
            [SelectItem ''Choose an option'' [], SelectItem ''Positive'' ''a-pos'',
             SelectItem ''Negative'' ''a-neg'']] \<and>
   [NumericKind, CodedKind] =
     priorityChain (sampleCollaborators []) bloodPanel @
     (if isPanel (sampleCollaborators []) bloodPanel
      then concat (map (priorityChain (sampleCollaborators [])) (membersOf bloodPanel))
      else [])"
proof -
  have r: "ResultFormField (sampleCollaborators []) Map.empty (Some bloodPanelObs) bloodPanel =
     Inr [NumberInput ''c-glucose'' ''c-glucose'' ''Glucose  (3.5 - 10  mg/dL)'' None False,
          Select ''select-c-malaria'' ''c-malaria'' (Some (VString ''a-neg''))
            ''Malaria smear '' None False
            [SelectItem ''Choose an option'' [], SelectItem ''Positive'' ''a-pos'',
             SelectItem ''Negative'' ''a-neg'']]"
    by (simp add: render_defs example_defs)
  from ResultFormField_priority_chain [OF r] r show ?thesis by simp
qed

text \<open>
  A coded concept with one member: the panel test and the coded test both hold and none
  of the first three does. The concept's own coded widget is rendered and the member's
  widget after it, so panel did not win over coded and two widgets came of one concept.
\<close>

theorem priority_chain_counterexample:
  "\<not> isImage (sampleCollaborators []) codedPanel (config (sampleCollaborators [])) \<and>
   \<not> isText (sampleCollaborators []) codedPanel \<and>
   \<not> isNumeric (sampleCollaborators []) codedPanel \<and>
   isPanel (sampleCollaborators []) codedPanel \<and>
   isCoded (sampleCollaborators []) codedPanel \<and>
   ResultFormField (sampleCollaborators []) Map.empty None codedPanel =
     Inr [Select ''select-c-coded-panel'' ''c-coded-panel'' None ''Smear with comment '' None False
            [SelectItem ''Choose an option'' [], SelectItem ''Positive'' ''a-pos'',
             SelectItem ''Negative'' ''a-neg''],
          TextInput ''c-comment'' ''c-comment'' ''Comment '' None False]"
  by (simp add: render_defs example_defs)

subsection \<open>The reference-range suffix\<close>

text \<open>
  Claim C2, as the code has it. The suffix is empty when the data-type code is not
  \<^verbatim>\<open>NM\<close>. Otherwise the unit segment is a space and the unit when there is a unit, and
  empty when there is none, and it follows the space that ends the bounds: two spaces
  stand between the last bound and a unit, one space between the last bound and the
  closing parenthesis without a unit, and a unit without bounds is written after one
  space inside the parentheses. Neither bounds nor unit gives the empty string.
\<close>

theorem formatLabRange_table:
  "(Option.bind (datatypeOf c) hl7Abbreviation \<noteq> Some ''NM'' \<longrightarrow> formatLabRange str c = '''') \<and>
   (Option.bind (datatypeOf c) hl7Abbreviation = Some ''NM'' \<longrightarrow>
      (lowAbsolute c = Some lo \<and> hiAbsolute c = Some hi \<and> units c = Some u \<and> u \<noteq> [] \<longrightarrow>
         formatLabRange str c = '' ('' @ str lo @ '' - '' @ str hi @ ''  '' @ u @ '')'') \<and>
      (lowAbsolute c = Some lo \<and> hiAbsolute c = Some hi \<and> \<not> truthy (units c) \<longrightarrow>
         formatLabRange str c = '' ('' @ str lo @ '' - '' @ str hi @ '' )'') \<and>
      (lowAbsolute c = None \<and> hiAbsolute c = Some hi \<and> units c = Some u \<and> u \<noteq> [] \<longrightarrow>
         formatLabRange str c = '' (<= '' @ str hi @ ''  '' @ u @ '')'') \<and>
      (lowAbsolute c = None \<and> hiAbsolute c = Some hi \<and> \<not> truthy (units c) \<longrightarrow>
         formatLabRange str c = '' (<= '' @ str hi @ '' )'') \<and>
      (lowAbsolute c = Some lo \<and> hiAbsolute c = None \<and> units c = Some u \<and> u \<noteq> [] \<longrightarrow>
         formatLabRange str c = '' (>= '' @ str lo @ ''  '' @ u @ '')'') \<and>
      (lowAbsolute c = Some lo \<and> hiAbsolute c = None \<and> \<not> truthy (units c) \<longrightarrow>
         formatLabRange str c = '' (>= '' @ str lo @ '' )'') \<and>
      (lowAbsolute c = None \<and> hiAbsolute c = None \<and> units c = Some u \<and> u \<noteq> [] \<longrightarrow>
         formatLabRange str c = '' ( '' @ u @ '')'') \<and>
      (lowAbsolute c = None \<and> hiAbsolute c = None \<and> \<not> truthy (units c) \<longrightarrow>
         formatLabRange str c = ''''))"
  by (auto simp: formatLabRange_def truthy_def split: option.splits)

theorem formatLabRange_table_witness:
  "formatLabRange decimalToString comment = '''' \<and>
   formatLabRange decimalToString glucose = '' (3.5 - 10  mg/dL)'' \<and>
   formatLabRange decimalToString
     (numericConcept (Some (Decimal False [3] [5])) (Some (Decimal False [1, 0] [])) None) =
     '' (3.5 - 10 )'' \<and>
   formatLabRange decimalToString
     (numericConcept None (Some (Decimal False [1, 0] [])) (Some ''mg/dL'')) = '' (<= 10  mg/dL)'' \<and>
   formatLabRange decimalToString cholesterol = '' (<= 200 )'' \<and>
   formatLabRange decimalToString
     (numericConcept (Some (Decimal False [3] [5])) None (Some ''mg/dL'')) = '' (>= 3.5  mg/dL)'' \<and>
   formatLabRange decimalToString
     (numericConcept (Some (Decimal False [3] [5])) None (Some '''')) = '' (>= 3.5 )'' \<and>
   formatLabRange decimalToString (numericConcept None None (Some ''mg/dL'')) = '' ( mg/dL)'' \<and>
   formatLabRange decimalToString (numericConcept None None None) = ''''"
  using formatLabRange_table [of comment decimalToString]
    formatLabRange_table [of glucose decimalToString "Decimal False [3] [5]"
      "Decimal False [1, 0] []" "''mg/dL''"]
    formatLabRange_table [of "numericConcept (Some (Decimal False [3] [5]))
      (Some (Decimal False [1, 0] [])) None" decimalToString "Decimal False [3] [5]"
      "Decimal False [1, 0] []"]
    formatLabRange_table [of "numericConcept None (Some (Decimal False [1, 0] [])) (Some ''mg/dL'')"
      decimalToString _ "Decimal False [1, 0] []" "''mg/dL''"]
    formatLabRange_table [of cholesterol decimalToString _ "Decimal False [2, 0, 0] []"]
    formatLabRange_table [of "numericConcept (Some (Decimal False [3] [5])) None (Some ''mg/dL'')"
      decimalToString "Decimal False [3] [5]" _ "''mg/dL''"]
    formatLabRange_table [of "numericConcept (Some (Decimal False [3] [5])) None (Some '''')"
      decimalToString "Decimal False [3] [5]"]
    formatLabRange_table [of "numericConcept None None (Some ''mg/dL'')"
      decimalToString _ _ "''mg/dL''"]
    formatLabRange_table [of "numericConcept None None None" decimalToString]
  by (simp add: example_defs truthy_def)

text \<open>
  Low 3.5, high 10, unit mg/dL: the suffix has two spaces before the unit, and is not the
  string with one.
\<close>

theorem formatLabRange_counterexample:
  "formatLabRange decimalToString glucose = '' (3.5 - 10  mg/dL)'' \<and>
   formatLabRange decimalToString glucose \<noteq> '' (3.5 - 10 mg/dL)''"
  by (simp add: formatLabRange_def truthy_def example_defs)

text \<open>
  Claim C3. For a numeric concept (data-type code \<^verbatim>\<open>NM\<close>) with an upper absolute bound
  that prints as 200, no lower bound and no unit, the suffix is \<^verbatim>\<open>" (<= 200 )"\<close>: the
  space before the empty unit segment stays.
\<close>

theorem formatLabRange_upper_bound_no_unit:
  assumes "Option.bind (datatypeOf c) hl7Abbreviation = Some ''NM''"
    and "lowAbsolute c = None" and "hiAbsolute c = Some hi"
    and "\<not> truthy (units c)" and "str hi = ''200''"
  shows "formatLabRange str c = '' (<= 200 )''"
  using assms by (auto simp: formatLabRange_def truthy_def split: option.splits)

theorem formatLabRange_upper_bound_no_unit_witness:
  "formatLabRange decimalToString cholesterol = '' (<= 200 )''"
  by (rule formatLabRange_upper_bound_no_unit [where hi = "Decimal False [2, 0, 0] []"])
    (simp_all add: truthy_def example_defs)

subsection \<open>The image capture adapter\<close>

text \<open>
  Claim C7. The add-image action opens the capture workflow with the collaborator's list
  of extensions without those that contain "pdf" in any case, the others in their order;
  with no list (nothing, or a value that is not an array) it passes the empty list. The
  list jpg, PDF, png gives jpg, png.
\<close>

theorem showImageCaptureModal_allowedExtensions:
  "showImageCaptureModal (Extensions exts) =
     [ShowModal ''capture-photo-modal''
        \<lparr>allowedExtensions = filter (\<lambda>ext. \<not> containsPdfIgnoringCase ext) exts,
         collectDescription = True, multipleFiles = True\<rparr>] \<and>
   showImageCaptureModal Absent =
     [ShowModal ''capture-photo-modal''
        \<lparr>allowedExtensions = [], collectDescription = True, multipleFiles = True\<rparr>] \<and>
   showImageCaptureModal NotAnArray =
     [ShowModal ''capture-photo-modal''
        \<lparr>allowedExtensions = [], collectDescription = True, multipleFiles = True\<rparr>] \<and>
   showImageCaptureModal (Extensions [''jpg'', ''PDF'', ''png'']) =
     [ShowModal ''capture-photo-modal''
        \<lparr>allowedExtensions = [''jpg'', ''png''], collectDescription = True,
         multipleFiles = True\<rparr>]"
proof (intro conjI)
  show "showImageCaptureModal (Extensions exts) =
     [ShowModal ''capture-photo-modal''
        \<lparr>allowedExtensions = filter (\<lambda>ext. \<not> containsPdfIgnoringCase ext) exts,
         collectDescription = True, multipleFiles = True\<rparr>]"
    by (simp add: showImageCaptureModal_def testPdf_iff)
qed (simp_all add: showImageCaptureModal_def)

text \<open>
  Claim C8. The remove action calls the setter once, with no value, so the form's value of
  the field becomes unset, and it shows exactly one notification: a success, low-contrast,
  titled with the localized "Image removed". What the adapter is handed afterwards is the
  value the field had at mount: nothing, and so no thumbnail, for a field that was empty
  at mount. The save callback with a file calls the setter once with that file and
  notifies nothing: the form's value and the adapter's value are that file, whose content
  the thumbnail shows. On a field empty at mount, saving the photo shows its thumbnail and
  removing it afterwards leaves no thumbnail and one notification.
\<close>

theorem handleRemoveImage_and_saveFile:
  "setterCalls (handleRemoveImage env) = [None] \<and>
   notifications (handleRemoveImage env) =
     [\<lparr>title = translate env ''imageRemoved'' ''Image removed'', kind = ''success'',
       isLowContrast = True\<rparr>] \<and>
   run (handleRemoveImage env) s =
     s\<lparr>fieldValue := None,
       snackbars := snackbars s @
         [\<lparr>title = translate env ''imageRemoved'' ''Image removed'', kind = ''success'',
           isLowContrast = True\<rparr>]\<rparr> \<and>
   fieldValue (run (handleRemoveImage env) s) = None \<and>
   adapterValue (run (handleRemoveImage env) s) = mountValue s \<and>
   setterCalls (saveFile (Some f)) = [Some f] \<and>
   notifications (saveFile (Some f)) = [] \<and>
   fieldValue (run (saveFile (Some f)) s) = Some f \<and>
   adapterValue (run (saveFile (Some f)) s) = Some f \<and>
   thumbnails (run (saveFile (Some f)) s) =
     [(base64Content f, case fileDescription f of None \<Rightarrow> fileName f | Some d \<Rightarrow> d)] \<and>
   snackbars (run (saveFile (Some f)) s) = snackbars s \<and>
   adapterValue (run (handleRemoveImage env) (run (saveFile (Some f)) s)) = mountValue s \<and>
   thumbnails (run (saveFile (Some photo)) emptyField) =
     [(''data:image/png;base64,AAAA'', ''smear.png'')] \<and>
   thumbnails (run (handleRemoveImage env) (run (saveFile (Some photo)) emptyField)) = [] \<and>
   snackbars (run (handleRemoveImage env) (run (saveFile (Some photo)) emptyField)) =
     [\<lparr>title = translate env ''imageRemoved'' ''Image removed'', kind = ''success'',
       isLowContrast = True\<rparr>]"
  by (simp add: run_def handleRemoveImage_def saveFile_def thumbnails_def adapterValue_def
      emptyField_def photo_def)

text \<open>
  Claim C9. When the workflow is dismissed without saving (the close callback, or the save
  callback with no file) the setter is not called and the field keeps its value, in the
  form and as the adapter is handed it; after either callback, and after a save with a
  file, the workflow is closed.
\<close>

theorem dismiss_keeps_value:
  "fieldValue (run closeModal s) = fieldValue s \<and>
   fieldValue (run (saveFile None) s) = fieldValue s \<and>
   (\<forall>v. SetValue v \<notin> set closeModal) \<and>
   (\<forall>v. SetValue v \<notin> set (saveFile None)) \<and>
   openModal (run closeModal s) = None \<and>
   openModal (run (saveFile file) s) = None \<and>
   Close \<in> set closeModal \<and> Close \<in> set (saveFile file) \<and>
   adapterValue (run closeModal s) = adapterValue s \<and>
   adapterValue (run (saveFile None) s) = adapterValue s \<and>
   setterCalls closeModal = [] \<and> setterCalls (saveFile None) = []"
  by (simp add: run_def closeModal_def saveFile_def adapterValue_def split: option.splits)

subsection \<open>Labels\<close>

lemma in_set_if_singleton: "w \<in> set (if b then [x] else []) \<longleftrightarrow> b \<and> w = x"
  by (cases b) simp_all

lemma ConceptField_label:
  "ConceptField env errors dv k = Inr ws \<Longrightarrow> w \<in> set ws \<Longrightarrow>
   name w = uuid k \<and>
   labelText w = (if kindOf w = ImageKind then imageLabel k else fieldLabel (numberToString env) k)"
  by (auto simp: ConceptField_def split: if_splits option.splits)

lemma memberFields_part000_label:
  assumes "memberFields_part000 env errors dv k = Inr ws" and "w \<in> set ws"
  shows "name w = uuid k \<and>
   labelText w = (if kindOf w = ImageKind then imageLabel k else fieldLabel (numberToString env) k)"
proof (cases "isCoded env k")
  case True
  with assms(1) obtain dt where "datatypeOf k = Some dt"
    by (cases "datatypeOf k") (simp_all add: memberFields_part000_def)
  with True assms show ?thesis
    by (auto simp: memberFields_part000_def in_set_if_singleton)
next
  case False
  with assms show ?thesis
    by (auto simp: memberFields_part000_def in_set_if_singleton)
qed

lemma ownFields_part000_label:
  "w \<in> set (ownFields_part000 env errors dv k) \<Longrightarrow>
   name w = uuid k \<and>
   labelText w = (if kindOf w = ImageKind then imageLabel k else fieldLabel (numberToString env) k)"
  by (auto simp: ownFields_part000_def in_set_if_singleton)

lemma renderMembers_member:
  assumes "renderMembers env f c = Inr rest" and "w \<in> set rest"
  shows "\<exists>m \<in> set (membersOf c). \<exists>mw. isPanel env c \<and> f m = Inr mw \<and> w \<in> set mw"
proof -
  from assms have p: "isPanel env c" and ok: "\<forall>m \<in> set (membersOf c). \<not> isl (f m)"
    and rest: "rest = concat (map (\<lambda>m. projr (f m)) (membersOf c))"
    by (auto simp: renderMembers_eq split: if_splits)
  from assms(2) rest obtain m where m: "m \<in> set (membersOf c)" "w \<in> set (projr (f m))"
    by auto
  with ok obtain mw where "f m = Inr mw" by (cases "f m") auto
  with m p show ?thesis by auto
qed

text \<open>
  Claim C4, as the code has it. In both copies of the component every rendered widget
  belongs to the concept or to a member of the panel, and its label is, for an image
  field, the display name alone (empty when absent) with no suffix, and for a text,
  numeric or coded field the display name followed by one space (nothing when the display
  name is absent or empty) and then the reference-range suffix.
\<close>

theorem label_composition:
  assumes "ResultFormField env errors dv c = Inr ws \<or>
           ResultFormField_part000 env errors dv c = Inr ws"
    and "w \<in> set ws"
  shows "\<exists>k \<in> set (renderedConcepts env c).
           name w = uuid k \<and>
           labelText w =
             (if kindOf w = ImageKind then (case display k of None \<Rightarrow> '''' | Some d \<Rightarrow> d)
              else (case display k of None \<Rightarrow> '''' | Some d \<Rightarrow> if d = [] then '''' else d @ '' '') @
                   formatLabRange (numberToString env) k)"
proof -
  have "\<exists>k \<in> set (renderedConcepts env c).
           name w = uuid k \<and>
           labelText w = (if kindOf w = ImageKind then imageLabel k
                          else fieldLabel (numberToString env) k)"
    using assms(1)
  proof
    assume "ResultFormField env errors dv c = Inr ws"
    then obtain own rest where own: "ConceptField env errors dv c = Inr own"
      and rest: "renderMembers env (ConceptField env errors dv) c = Inr rest"
      and ws: "ws = own @ rest"
      unfolding ResultFormField_Inr by blast
    from assms(2) ws consider "w \<in> set own" | "w \<in> set rest" by auto
    then show ?thesis
    proof cases
      case 1
      with ConceptField_label [OF own] show ?thesis by (simp add: renderedConcepts_def)
    next
      case 2
      from renderMembers_member [OF rest 2] ConceptField_label
      show ?thesis by (fastforce simp: renderedConcepts_def)
    qed
  next
    assume "ResultFormField_part000 env errors dv c = Inr ws"
    then obtain rest where
      rest: "renderMembers env (memberFields_part000 env errors dv) c = Inr rest"
      and ws: "ws = ownFields_part000 env errors dv c @ rest"
      by (auto simp: ResultFormField_part000_def split: sum.splits)
    from assms(2) ws consider "w \<in> set (ownFields_part000 env errors dv c)" | "w \<in> set rest"
      by auto
    then show ?thesis
    proof cases
      case 1
      with ownFields_part000_label show ?thesis by (fastforce simp: renderedConcepts_def)
    next
      case 2
      from renderMembers_member [OF rest 2] memberFields_part000_label
      show ?thesis by (fastforce simp: renderedConcepts_def)
    qed
  qed
  then obtain k where k: "k \<in> set (renderedConcepts env c)" "name w = uuid k"
    "labelText w = (if kindOf w = ImageKind then imageLabel k
                    else fieldLabel (numberToString env) k)"
    by blast
  have "imageLabel k = (case display k of None \<Rightarrow> '''' | Some d \<Rightarrow> d)"
    by (simp add: imageLabel_def)
  moreover have "fieldLabel (numberToString env) k =
      (case display k of None \<Rightarrow> '''' | Some d \<Rightarrow> if d = [] then '''' else d @ '' '') @
      formatLabRange (numberToString env) k"
    by (simp add: fieldLabel_def split: option.splits)
  ultimately show ?thesis using k by auto
qed

theorem label_composition_witness:
  "\<exists>k \<in> set (renderedConcepts (sampleCollaborators []) comment).
     name (TextInput ''c-comment'' ''c-comment'' ''Comment '' None False :: decimal widget) = uuid k \<and>
     ''Comment '' = (case display k of None \<Rightarrow> '''' | Some d \<Rightarrow> if d = [] then '''' else d @ '' '') @
                    formatLabRange decimalToString k"
proof -
  have r: "ResultFormField (sampleCollaborators []) Map.empty None comment =
             Inr [TextInput ''c-comment'' ''c-comment'' ''Comment '' None False] \<or>
           ResultFormField_part000 (sampleCollaborators []) Map.empty None comment =
             Inr [TextInput ''c-comment'' ''c-comment'' ''Comment '' None False]"
    by (simp add: render_defs example_defs)
  have m: "TextInput ''c-comment'' ''c-comment'' ''Comment '' None False \<in>
             set [TextInput ''c-comment'' ''c-comment'' ''Comment '' None False :: decimal widget]"
    by simp
  from label_composition [OF r m] show ?thesis by (simp add: sampleCollaborators_def)
qed

text \<open>
  The free-text concept "Comment" has an empty suffix; its label is the display name and a
  space, not the display name joined to the suffix with nothing between them.
\<close>

theorem label_composition_counterexample:
  "ResultFormField (sampleCollaborators []) Map.empty None comment =
     Inr [TextInput ''c-comment'' ''c-comment'' ''Comment '' None False] \<and>
   display comment = Some ''Comment'' \<and>
   ''Comment '' \<noteq> ''Comment'' @ formatLabRange decimalToString comment"
  by (simp add: render_defs example_defs)

subsection \<open>Pre-filled values and panel members\<close>

lemma getSavedMemberValue_part000_eq:
  "getSavedMemberValue_part000 dv u t =
     (case dv of None \<Rightarrow> None | Some obs \<Rightarrow> groupMemberValue obs u t)"
  by (auto simp: getSavedMemberValue_part000_def findGroupMember_def valueUuid_def
      groupMemberValue_def split: option.splits obs_value.splits)

lemma getSavedMemberValue_eq:
  "getSavedMemberValue dv u t =
     (case dv of
        None \<Rightarrow> None
      | Some obs \<Rightarrow>
          if obsConceptUuid obs = Some u then obsValue obs else groupMemberValue obs u t)"
proof -
  have "getSavedMemberValue dv u t =
          (if Some u = Option.bind dv obsConceptUuid then Option.bind dv obsValue
           else getSavedMemberValue_part000 dv u t)"
    by (simp add: getSavedMemberValue_def getSavedMemberValue_part000_def)
  then show ?thesis
    by (auto simp: getSavedMemberValue_part000_eq split: option.splits)
qed

lemma ResultFormField_part000_Inr:
  "ResultFormField_part000 env errors dv c = Inr ws \<longleftrightarrow>
     (\<exists>rest. renderMembers env (memberFields_part000 env errors dv) c = Inr rest \<and>
        ws = ownFields_part000 env errors dv c @ rest)"
  by (auto simp: ResultFormField_part000_def split: sum.splits)

lemma renderMembers_panel:
  assumes "renderMembers env f c = Inr rest" and "isPanel env c"
  shows "rest = concat (map (\<lambda>m. projr (f m)) (membersOf c)) \<and>
         (\<forall>m \<in> set (membersOf c). \<exists>mw. f m = Inr mw \<and> set mw \<subseteq> set rest)"
proof -
  from assms have ok: "\<forall>m \<in> set (membersOf c). \<not> isl (f m)"
    and r: "rest = concat (map (\<lambda>m. projr (f m)) (membersOf c))"
    by (auto simp: renderMembers_eq split: if_splits)
  have "\<exists>mw. f m = Inr mw \<and> set mw \<subseteq> set rest" if "m \<in> set (membersOf c)" for m
  proof -
    from ok that obtain mw where "f m = Inr mw" by (cases "f m") auto
    with that r show ?thesis by force
  qed
  with r show ?thesis by blast
qed

lemma ConceptField_coded:
  assumes "ConceptField env errors dv m = Inr mw"
    and "\<not> isImage env m (config env)" and "\<not> isText env m" and "\<not> isNumeric env m"
    and "isCoded env m"
  shows "\<exists>w dt. w \<in> set mw \<and> kindOf w = CodedKind \<and> name w = uuid m \<and>
           datatypeOf m = Some dt \<and>
           defaultOf w = getSavedMemberValue dv (uuid m) (dtDisplay dt)"
  using assms by (auto simp: ConceptField_def split: option.splits)

lemma memberFields_part000_coded:
  assumes "memberFields_part000 env errors dv m = Inr mw" and "isCoded env m"
  shows "\<exists>w dt. w \<in> set mw \<and> kindOf w = CodedKind \<and> name w = uuid m \<and>
           datatypeOf m = Some dt \<and>
           defaultOf w = getSavedMemberValue_part000 dv (uuid m) (dtDisplay dt)"
proof -
  from assms obtain dt where dt: "datatypeOf m = Some dt"
    by (cases "datatypeOf m") (simp_all add: memberFields_part000_def)
  let ?w = "Select (''select-'' @ uuid m) (uuid m)
              (getSavedMemberValue_part000 dv (uuid m) (dtDisplay dt))
              (fieldLabel (numberToString env) m)
              (errorMessage errors (uuid m)) (hasError errors (uuid m))
              (SelectItem (translate env ''chooseAnOption'' ''Choose an option'') '''' #
               (case answers m of None \<Rightarrow> [] | Some as \<Rightarrow> map answerItem as))"
  from assms dt have "?w \<in> set mw"
    by (auto simp: memberFields_part000_def)
  with dt show ?thesis by (intro exI [of _ ?w] exI [of _ dt]) simp
qed

lemma memberFields_part000_kinds:
  "memberFields_part000 env errors dv m = Inr mw \<Longrightarrow>
   map kindOf mw =
     (if isText env m then [TextKind] else []) @
     (if isNumeric env m then [NumericKind] else []) @
     (if isCoded env m then [CodedKind] else []) @
     (if isImage env m (config env) then [ImageKind] else [])"
  by (cases "isCoded env m"; cases "datatypeOf m")
    (auto simp: memberFields_part000_def)

text \<open>
  Claim C5, as the code has it. In the component file the coded field of a panel member
  pre-fills as the claim says: the observation's own value when the member's concept
  identifier is that of the observation's concept; otherwise the value recorded for the
  member among the group members (the first child with the member's concept identifier,
  as its identifier when the member's datatype is named Coded, as it is otherwise); unset
  when there is no observation or no such child. In the second copy of the component the
  first rule does not exist: the coded field of a member always pre-fills from the group
  members.
\<close>

theorem member_coded_prefill:
  assumes "isPanel env c" and "m \<in> set (membersOf c)" and "isCoded env m"
  shows "(ResultFormField env errors dv c = Inr ws \<and>
          \<not> isImage env m (config env) \<and> \<not> isText env m \<and> \<not> isNumeric env m \<longrightarrow>
            (\<exists>w dt. w \<in> set ws \<and> kindOf w = CodedKind \<and> name w = uuid m \<and>
               datatypeOf m = Some dt \<and>
               defaultOf w =
                 (case dv of
                    None \<Rightarrow> None
                  | Some obs \<Rightarrow>
                      if obsConceptUuid obs = Some (uuid m) then obsValue obs
                      else groupMemberValue obs (uuid m) (dtDisplay dt)))) \<and>
         (ResultFormField_part000 env errors dv c = Inr ws \<longrightarrow>
            (\<exists>w dt. w \<in> set ws \<and> kindOf w = CodedKind \<and> name w = uuid m \<and>
               datatypeOf m = Some dt \<and>
               defaultOf w =
                 (case dv of
                    None \<Rightarrow> None
                  | Some obs \<Rightarrow> groupMemberValue obs (uuid m) (dtDisplay dt))))"
proof (intro conjI impI)
  assume a: "ResultFormField env errors dv c = Inr ws \<and>
          \<not> isImage env m (config env) \<and> \<not> isText env m \<and> \<not> isNumeric env m"
  then obtain own rest where
    rest: "renderMembers env (ConceptField env errors dv) c = Inr rest"
    and ws: "ws = own @ rest"
    unfolding ResultFormField_Inr by blast
  from renderMembers_panel [OF rest assms(1)] assms(2) obtain mw where
    mw: "ConceptField env errors dv m = Inr mw" "set mw \<subseteq> set rest"
    by blast
  from ConceptField_coded [OF mw(1)] a assms(3) obtain w dt where
    "w \<in> set mw" "kindOf w = CodedKind" "name w = uuid m" "datatypeOf m = Some dt"
    "defaultOf w = getSavedMemberValue dv (uuid m) (dtDisplay dt)"
    by blast
  with mw(2) ws show "\<exists>w dt. w \<in> set ws \<and> kindOf w = CodedKind \<and> name w = uuid m \<and>
               datatypeOf m = Some dt \<and>
               defaultOf w =
                 (case dv of
                    None \<Rightarrow> None
                  | Some obs \<Rightarrow>
                      if obsConceptUuid obs = Some (uuid m) then obsValue obs
                      else groupMemberValue obs (uuid m) (dtDisplay dt))"
    unfolding getSavedMemberValue_eq by (intro exI [of _ w] exI [of _ dt]) auto
next
  assume "ResultFormField_part000 env errors dv c = Inr ws"
  then obtain rest where
    rest: "renderMembers env (memberFields_part000 env errors dv) c = Inr rest"
    and ws: "ws = ownFields_part000 env errors dv c @ rest"
    unfolding ResultFormField_part000_Inr by blast
  from renderMembers_panel [OF rest assms(1)] assms(2) obtain mw where
    mw: "memberFields_part000 env errors dv m = Inr mw" "set mw \<subseteq> set rest"
    by blast
  from memberFields_part000_coded [OF mw(1) assms(3)] obtain w dt where
    "w \<in> set mw" "kindOf w = CodedKind" "name w = uuid m" "datatypeOf m = Some dt"
    "defaultOf w = getSavedMemberValue_part000 dv (uuid m) (dtDisplay dt)"
    by blast
  with mw(2) ws show "\<exists>w dt. w \<in> set ws \<and> kindOf w = CodedKind \<and> name w = uuid m \<and>
               datatypeOf m = Some dt \<and>
               defaultOf w =
                 (case dv of
                    None \<Rightarrow> None
                  | Some obs \<Rightarrow> groupMemberValue obs (uuid m) (dtDisplay dt))"
    unfolding getSavedMemberValue_part000_eq by (intro exI [of _ w] exI [of _ dt]) auto
qed

theorem member_coded_prefill_witness:
  "(\<exists>w \<in> set [NumberInput ''c-glucose'' ''c-glucose'' ''Glucose  (3.5 - 10  mg/dL)'' None False,
               Select ''select-c-malaria'' ''c-malaria'' (Some (VString ''a-neg''))
                 ''Malaria smear '' None False
                 [SelectItem ''Choose an option'' [], SelectItem ''Positive'' ''a-pos'',
                  SelectItem ''Negative'' ''a-neg'']].
     name w = ''c-malaria'' \<and> defaultOf w = Some (VString ''a-neg'' :: decimal obs_value)) \<and>
   (\<exists>w \<in> set [NumberInput ''number-c-glucose'' ''c-glucose'' ''Glucose  (3.5 - 10  mg/dL)''
                 None False,
               Select ''select-c-malaria'' ''c-malaria'' (Some (VString ''a-neg''))
                 ''Malaria smear '' None False
                 [SelectItem ''Choose an option'' [], SelectItem ''Positive'' ''a-pos'',
                  SelectItem ''Negative'' ''a-neg'']].
     name w = ''c-malaria'' \<and> defaultOf w = Some (VString ''a-neg'' :: decimal obs_value))"
proof -
  have r: "ResultFormField (sampleCollaborators []) Map.empty (Some bloodPanelObs) bloodPanel =
     Inr [NumberInput ''c-glucose'' ''c-glucose'' ''Glucose  (3.5 - 10  mg/dL)'' None False,
          Select ''select-c-malaria'' ''c-malaria'' (Some (VString ''a-neg''))
            ''Malaria smear '' None False
            [SelectItem ''Choose an option'' [], SelectItem ''Positive'' ''a-pos'',
             SelectItem ''Negative'' ''a-neg'']]"
    by (simp add: render_defs example_defs)
  have r': "ResultFormField_part000 (sampleCollaborators []) Map.empty (Some bloodPanelObs)
              bloodPanel =
     Inr [NumberInput ''number-c-glucose'' ''c-glucose'' ''Glucose  (3.5 - 10  mg/dL)'' None False,
          Select ''select-c-malaria'' ''c-malaria'' (Some (VString ''a-neg''))
            ''Malaria smear '' None False
            [SelectItem ''Choose an option'' [], SelectItem ''Positive'' ''a-pos'',
             SelectItem ''Negative'' ''a-neg'']]"
    by (simp add: render_defs example_defs)
  have p: "isPanel (sampleCollaborators []) bloodPanel"
    by (simp add: example_defs)
  have m: "malaria \<in> set (membersOf bloodPanel)"
    by (simp add: membersOf_def bloodPanel_def)
  have t: "\<not> isImage (sampleCollaborators []) malaria (config (sampleCollaborators []))"
    "\<not> isText (sampleCollaborators []) malaria" "\<not> isNumeric (sampleCollaborators []) malaria"
    "isCoded (sampleCollaborators []) malaria"
    by (simp_all add: example_defs)
  have g: "groupMemberValue bloodPanelObs (uuid malaria) (Some ''Coded'') =
             Some (VString ''a-neg'')"
    by (simp add: groupMemberValue_def example_defs)
  have d: "datatypeOf malaria = Some dt \<Longrightarrow> dtDisplay dt = Some ''Coded''" for dt
    by (auto simp: malaria_def)
  have o: "obsConceptUuid bloodPanelObs \<noteq> Some (uuid malaria)"
    by (simp add: example_defs)
  note inst = member_coded_prefill [OF p m t(4), of Map.empty "Some bloodPanelObs"]
  from inst [THEN conjunct1, rule_format, OF conjI [OF r conjI [OF t(1) conjI [OF t(2) t(3)]]]]
  have "\<exists>w \<in> set [NumberInput ''c-glucose'' ''c-glucose'' ''Glucose  (3.5 - 10  mg/dL)'' None False,
               Select ''select-c-malaria'' ''c-malaria'' (Some (VString ''a-neg''))
                 ''Malaria smear '' None False
                 [SelectItem ''Choose an option'' [], SelectItem ''Positive'' ''a-pos'',
                  SelectItem ''Negative'' ''a-neg'']].
     name w = ''c-malaria'' \<and> defaultOf w = Some (VString ''a-neg'' :: decimal obs_value)"
    using g d o by (fastforce simp: malaria_def)
  moreover from inst [THEN conjunct2, rule_format, OF r']
  have "\<exists>w \<in> set [NumberInput ''number-c-glucose'' ''c-glucose'' ''Glucose  (3.5 - 10  mg/dL)''
                 None False,
               Select ''select-c-malaria'' ''c-malaria'' (Some (VString ''a-neg''))
                 ''Malaria smear '' None False
                 [SelectItem ''Choose an option'' [], SelectItem ''Positive'' ''a-pos'',
                  SelectItem ''Negative'' ''a-neg'']].
     name w = ''c-malaria'' \<and> defaultOf w = Some (VString ''a-neg'' :: decimal obs_value)"
    using g d by (fastforce simp: malaria_def)
  ultimately show ?thesis by (rule conjI)
qed

text \<open>
  The blood panel with the recorded observation of the malaria smear, whose concept is
  the member's: the second copy of the component searches the group members, finds none
  and leaves the member's coded field unset, where the observation's value was to be used.
\<close>

theorem member_coded_prefill_counterexample:
  "isPanel (sampleCollaborators []) bloodPanel \<and>
   malaria \<in> set (membersOf bloodPanel) \<and>
   isCoded (sampleCollaborators []) malaria \<and>
   obsConceptUuid malariaObs = Some (uuid malaria) \<and>
   obsValue malariaObs = Some (VCoded ''a-pos'' ''Positive'') \<and>
   ResultFormField_part000 (sampleCollaborators []) Map.empty (Some malariaObs) bloodPanel =
     Inr [NumberInput ''number-c-glucose'' ''c-glucose'' ''Glucose  (3.5 - 10  mg/dL)'' None False,
          Select ''select-c-malaria'' ''c-malaria'' None ''Malaria smear '' None False
            [SelectItem ''Choose an option'' [], SelectItem ''Positive'' ''a-pos'',
             SelectItem ''Negative'' ''a-neg'']]"
  by (simp add: render_defs example_defs membersOf_def)

text \<open>
  Claim C6, as the code has it. For a panel the component file renders, after the concept's
  own widget, the members in the order of the member list: one widget, named after the
  member, for each member that is image, text, numeric or coded, and none for a member of
  no such kind. The second copy renders for each member, in the same order, one widget
  for every test that holds of text, numeric, coded, image. In both, what is rendered for
  a member comes from that member alone: nothing is rendered for the members of a member.
\<close>

theorem panel_members_rendering:
  assumes "isPanel env c"
  shows "(ResultFormField env errors dv c = Inr ws \<longrightarrow>
            (\<exists>own. ConceptField env errors dv c = Inr own \<and>
               ws = own @ concat (map (\<lambda>m. projr (ConceptField env errors dv m)) (membersOf c)) \<and>
               (\<forall>m \<in> set (membersOf c). \<exists>mw.
                  ConceptField env errors dv m = Inr mw \<and>
                  length mw =
                    (if isImage env m (config env) \<or> isText env m \<or> isNumeric env m \<or>
                        isCoded env m
                     then 1 else 0) \<and>
                  (\<forall>w \<in> set mw. name w = uuid m)))) \<and>
         (ResultFormField_part000 env errors dv c = Inr ws \<longrightarrow>
            ws = ownFields_part000 env errors dv c @
                 concat (map (\<lambda>m. projr (memberFields_part000 env errors dv m)) (membersOf c)) \<and>
            (\<forall>m \<in> set (membersOf c). \<exists>mw.
               memberFields_part000 env errors dv m = Inr mw \<and>
               map kindOf mw =
                 (if isText env m then [TextKind] else []) @
                 (if isNumeric env m then [NumericKind] else []) @
                 (if isCoded env m then [CodedKind] else []) @
                 (if isImage env m (config env) then [ImageKind] else []) \<and>
               (\<forall>w \<in> set mw. name w = uuid m)))"
proof (intro conjI impI)
  assume "ResultFormField env errors dv c = Inr ws"
  then obtain own rest where own: "ConceptField env errors dv c = Inr own"
    and rest: "renderMembers env (ConceptField env errors dv) c = Inr rest"
    and ws: "ws = own @ rest"
    unfolding ResultFormField_Inr by blast
  note r = renderMembers_panel [OF rest assms]
  have "\<exists>mw. ConceptField env errors dv m = Inr mw \<and>
              length mw =
                (if isImage env m (config env) \<or> isText env m \<or> isNumeric env m \<or> isCoded env m
                 then 1 else 0) \<and>
              (\<forall>w \<in> set mw. name w = uuid m)" if "m \<in> set (membersOf c)" for m
  proof -
    from r that obtain mw where mw: "ConceptField env errors dv m = Inr mw"
      by blast
    from ConceptField_kinds [OF mw] have "length mw = length (priorityChain env m)"
      by (metis length_map)
    then have "length mw =
                (if isImage env m (config env) \<or> isText env m \<or> isNumeric env m \<or> isCoded env m
                 then 1 else 0)"
      by (simp add: priorityChain_def)
    with mw ConceptField_label [OF mw] show ?thesis by auto
  qed
  with own ws r show "\<exists>own. ConceptField env errors dv c = Inr own \<and>
               ws = own @ concat (map (\<lambda>m. projr (ConceptField env errors dv m)) (membersOf c)) \<and>
               (\<forall>m \<in> set (membersOf c). \<exists>mw.
                  ConceptField env errors dv m = Inr mw \<and>
                  length mw =
                    (if isImage env m (config env) \<or> isText env m \<or> isNumeric env m \<or>
                        isCoded env m
                     then 1 else 0) \<and>
                  (\<forall>w \<in> set mw. name w = uuid m))"
    by auto
next
  assume p: "ResultFormField_part000 env errors dv c = Inr ws"
  then obtain rest where
    rest: "renderMembers env (memberFields_part000 env errors dv) c = Inr rest"
    and ws: "ws = ownFields_part000 env errors dv c @ rest"
    unfolding ResultFormField_part000_Inr by blast
  note r = renderMembers_panel [OF rest assms]
  from ws r show "ws = ownFields_part000 env errors dv c @
                 concat (map (\<lambda>m. projr (memberFields_part000 env errors dv m)) (membersOf c))"
    by simp
  show "\<forall>m \<in> set (membersOf c). \<exists>mw.
               memberFields_part000 env errors dv m = Inr mw \<and>
               map kindOf mw =
                 (if isText env m then [TextKind] else []) @
                 (if isNumeric env m then [NumericKind] else []) @
                 (if isCoded env m then [CodedKind] else []) @
                 (if isImage env m (config env) then [ImageKind] else []) \<and>
               (\<forall>w \<in> set mw. name w = uuid m)"
  proof
    fix m
    assume "m \<in> set (membersOf c)"
    with r obtain mw where mw: "memberFields_part000 env errors dv m = Inr mw"
      by blast
    with memberFields_part000_kinds [OF mw] memberFields_part000_label [OF mw]
    show "\<exists>mw. memberFields_part000 env errors dv m = Inr mw \<and>
               map kindOf mw =
                 (if isText env m then [TextKind] else []) @
                 (if isNumeric env m then [NumericKind] else []) @
                 (if isCoded env m then [CodedKind] else []) @
                 (if isImage env m (config env) then [ImageKind] else []) \<and>
               (\<forall>w \<in> set mw. name w = uuid m)"
      by blast
  qed
qed

theorem panel_members_rendering_witness:
  "(\<exists>own. ConceptField (sampleCollaborators []) Map.empty (Some bloodPanelObs) bloodPanel = Inr own \<and>
     [NumberInput ''c-glucose'' ''c-glucose'' ''Glucose  (3.5 - 10  mg/dL)'' None False,
      Select ''select-c-malaria'' ''c-malaria'' (Some (VString ''a-neg''))
        ''Malaria smear '' None False
        [SelectItem ''Choose an option'' [], SelectItem ''Positive'' ''a-pos'',
         SelectItem ''Negative'' ''a-neg'']] =
     own @ concat (map (\<lambda>m. projr (ConceptField (sampleCollaborators []) Map.empty
                                     (Some bloodPanelObs) m)) (membersOf bloodPanel))) \<and>
   [NumberInput ''number-c-glucose'' ''c-glucose'' ''Glucose  (3.5 - 10  mg/dL)'' None False,
    Select ''select-c-malaria'' ''c-malaria'' (Some (VString ''a-neg''))
      ''Malaria smear '' None False
      [SelectItem ''Choose an option'' [], SelectItem ''Positive'' ''a-pos'',
       SelectItem ''Negative'' ''a-neg'']] =
   ownFields_part000 (sampleCollaborators []) Map.empty (Some bloodPanelObs) bloodPanel @
   concat (map (\<lambda>m. projr (memberFields_part000 (sampleCollaborators []) Map.empty
                              (Some bloodPanelObs) m)) (membersOf bloodPanel))"
proof -
  have r: "ResultFormField (sampleCollaborators []) Map.empty (Some bloodPanelObs) bloodPanel =
     Inr [NumberInput ''c-glucose'' ''c-glucose'' ''Glucose  (3.5 - 10  mg/dL)'' None False,
          Select ''select-c-malaria'' ''c-malaria'' (Some (VString ''a-neg''))
            ''Malaria smear '' None False
            [SelectItem ''Choose an option'' [], SelectItem ''Positive'' ''a-pos'',
             SelectItem ''Negative'' ''a-neg'']]"
    by (simp add: render_defs example_defs)
  have r': "ResultFormField_part000 (sampleCollaborators []) Map.empty (Some bloodPanelObs)
              bloodPanel =
     Inr [NumberInput ''number-c-glucose'' ''c-glucose'' ''Glucose  (3.5 - 10  mg/dL)'' None False,
          Select ''select-c-malaria'' ''c-malaria'' (Some (VString ''a-neg''))
            ''Malaria smear '' None False
            [SelectItem ''Choose an option'' [], SelectItem ''Positive'' ''a-pos'',
             SelectItem ''Negative'' ''a-neg'']]"
    by (simp add: render_defs example_defs)
  have p: "isPanel (sampleCollaborators []) bloodPanel"
    by (simp add: example_defs)
  note inst = panel_members_rendering [OF p, of Map.empty "Some bloodPanelObs"]
  from inst [THEN conjunct1, rule_format, OF r] inst [THEN conjunct2, rule_format, OF r']
  show ?thesis by blast
qed

text \<open>
  The blood panel has three members, glucose, the collection date and the malaria smear;
  two widgets are rendered, none for the collection date, for which no widget test holds.
\<close>

theorem panel_members_counterexample:
  "isPanel (sampleCollaborators []) bloodPanel \<and>
   setMembers bloodPanel = Some [glucose, collectionDate, malaria] \<and>
   ConceptField (sampleCollaborators []) Map.empty (Some bloodPanelObs) collectionDate = Inr [] \<and>
   ResultFormField (sampleCollaborators []) Map.empty (Some bloodPanelObs) bloodPanel =
     Inr [NumberInput ''c-glucose'' ''c-glucose'' ''Glucose  (3.5 - 10  mg/dL)'' None False,
          Select ''select-c-malaria'' ''c-malaria'' (Some (VString ''a-neg''))
            ''Malaria smear '' None False
            [SelectItem ''Choose an option'' [], SelectItem ''Positive'' ''a-pos'',
             SelectItem ''Negative'' ''a-neg'']]"
  by (simp add: render_defs example_defs)

subsection \<open>The two copies of the component\<close>













end
